theory Spec2Isabelle
  imports Complex_Main
begin

section \<open>Maximum likelihood estimation: \<open>pyhf/infer/mle.py\<close>\<close>

text \<open>
  The module has three public functions, \<open>twice_nll\<close>, \<open>fit\<close> and \<open>fixed_poi_fit\<close>, and
  the private helper \<open>_validate_fit_inputs\<close>. The model (\<open>pdf\<close>) and the optimizer
  (\<open>opt\<close>, the second component of \<open>get_backend()\<close>) are collaborators that the module
  only calls; they are arguments of the embedding.

  Numbers are \<open>real\<close>: the comparisons of the validator and the product of the objective
  are those of the ordered field, so a floating-point NaN or a rounding of the model's own
  density is outside the embedding.
\<close>

subsection \<open>Data\<close>

type_synonym tensor = "real list"

text \<open>A bound is the pair \<open>(bound[0], bound[1])\<close>.\<close>

type_synonym bound = "real \<times> real"

text \<open>
  \<open>pdf.config\<close>: the three \<open>suggested_*()\<close> methods return lists and take no argument, so
  they are fields; \<open>poi_index\<close> is \<open>None\<close> or a position in the parameter list.
\<close>

record config =
  suggested_init :: "real list"
  suggested_bounds :: "bound list"
  suggested_fixed :: "bool list"
  poi_index :: "nat option"

record model =
  config :: config
  logpdf :: "real list \<Rightarrow> tensor \<Rightarrow> real"

text \<open>
  The exceptions of the module. \<open>ValueError\<close> is the one \<open>_validate_fit_inputs\<close> raises;
  its message interpolates the index, the value and the bound, which are the constructor's
  arguments. \<open>IndexError\<close> is what a Python list assignment raises out of range.
  \<open>Other\<close> stands for any other exception an optimizer raises.
\<close>

datatype 'e exn =
    ValueError nat real bound
  | UnspecifiedPOI
  | IndexError
  | Other 'e

text \<open>
  The optimizer: \<open>opt.minimize(objective, data, pdf, init_pars, par_bounds, fixed_vals,
  **kwargs)\<close>. It is an object of the backend with a state of its own (\<open>'s\<close>), which a
  call may change; it returns a result (\<open>'r\<close>) or raises.
\<close>

record ('k, 'e, 'r, 's) optimizer =
  minimize :: "(real list \<Rightarrow> tensor \<Rightarrow> model \<Rightarrow> real) \<Rightarrow> tensor \<Rightarrow> model \<Rightarrow> real list
    \<Rightarrow> bound list \<Rightarrow> (nat \<times> real) list \<Rightarrow> 'k \<Rightarrow> 's \<Rightarrow> ('e exn + 'r) \<times> 's"

subsection \<open>The objective\<close>

text \<open>\<^verbatim>\<open>return -2 * pdf.logpdf(pars, data)\<close>\<close>

definition twice_nll :: "real list \<Rightarrow> tensor \<Rightarrow> model \<Rightarrow> real" where
  "twice_nll pars data pdf = - 2 * logpdf pdf pars data"

subsection \<open>Validation\<close>

text \<open>
  \<^verbatim>\<open>for par_idx, (value, bound) in enumerate(zip(init_pars, par_bounds)):
      if not (bound[0] <= value <= bound[1]): raise ValueError(...)\<close>
  The loop body, over the enumerated pairs; falling off the end returns \<open>None\<close>.
\<close>

fun validate_loop :: "(nat \<times> real \<times> bound) list \<Rightarrow> 'e exn + unit" where
  "validate_loop [] = Inr ()"
| "validate_loop ((par_idx, v, bnd) # rest) =
     (if \<not> (fst bnd \<le> v \<and> v \<le> snd bnd) then Inl (ValueError par_idx v bnd)
      else validate_loop rest)"

definition validate_fit_inputs :: "real list \<Rightarrow> bound list \<Rightarrow> bool list \<Rightarrow> 'e exn + unit" where
  "validate_fit_inputs init_pars par_bounds fixed_params =
     validate_loop (enumerate 0 (zip init_pars par_bounds))"

subsection \<open>The free fit\<close>

text \<open>
  \<open>x or d\<close> for an argument that is \<open>None\<close> or a list: a list is falsy exactly when it is
  empty.
\<close>

fun py_or :: "'a list option \<Rightarrow> 'a list \<Rightarrow> 'a list" where
  "py_or None d = d"
| "py_or (Some []) d = d"
| "py_or (Some (x # xs)) d = x # xs"

text \<open>
  \<^verbatim>\<open>init_pars = init_pars or pdf.config.suggested_init()
  par_bounds = par_bounds or pdf.config.suggested_bounds()
  fixed_params = fixed_params or pdf.config.suggested_fixed()
  _validate_fit_inputs(init_pars, par_bounds, fixed_params)
  fixed_vals = [(index, init)
      for index, (init, is_fixed) in enumerate(zip(init_pars, fixed_params)) if is_fixed]
  return opt.minimize(twice_nll, data, pdf, init_pars, par_bounds, fixed_vals, **kwargs)\<close>
  The optimizer's state is threaded through: a call that raises in validation leaves it as
  it was.
\<close>

definition fit :: "('k, 'e, 'r, 's) optimizer \<Rightarrow> tensor \<Rightarrow> model \<Rightarrow> real list option
    \<Rightarrow> bound list option \<Rightarrow> bool list option \<Rightarrow> 'k \<Rightarrow> 's \<Rightarrow> ('e exn + 'r) \<times> 's" where
  "fit opt data pdf init_pars par_bounds fixed_params kwargs s =
     (let init_pars = py_or init_pars (suggested_init (config pdf));
          par_bounds = py_or par_bounds (suggested_bounds (config pdf));
          fixed_params = py_or fixed_params (suggested_fixed (config pdf))
      in case validate_fit_inputs init_pars par_bounds fixed_params of
           Inl e \<Rightarrow> (Inl e, s)
         | Inr _ \<Rightarrow>
             (let fixed_vals =
                    [(index, init).
                       (index, init, is_fixed) \<leftarrow> enumerate 0 (zip init_pars fixed_params),
                       is_fixed]
              in minimize opt twice_nll data pdf init_pars par_bounds fixed_vals kwargs s))"

subsection \<open>The fit with the POI fixed\<close>

text \<open>
  \<open>fixed_poi_fit\<close> assigns into lists, so the lists live in a store: the caller passes
  \<open>init_pars\<close> and \<open>fixed_params\<close> as \<open>None\<close> or as the address of a list object. An
  address is a position in the store; a new object goes to the end.
\<close>

record heap =
  flists :: "real list list"
  blists :: "bool list list"

text \<open>\<open>[*xs]\<close>: a new list object with the elements of \<open>xs\<close>.\<close>

definition new_list :: "'a list \<Rightarrow> 'a list list \<Rightarrow> nat \<times> 'a list list" where
  "new_list xs st = (length st, st @ [xs])"

text \<open>\<open>a[i] = v\<close> on the list object at address \<open>a\<close>; out of range it raises.\<close>

definition setitem :: "nat \<Rightarrow> nat \<Rightarrow> 'a \<Rightarrow> 'a list list \<Rightarrow> 'e exn + 'a list list" where
  "setitem a i v st =
     (if i < length (st ! a) then Inr (st[a := (st ! a)[i := v]]) else Inl IndexError)"

text \<open>
  \<^verbatim>\<open>if pdf.config.poi_index is None: raise UnspecifiedPOI(...)
  init_pars = [*(init_pars or pdf.config.suggested_init())]
  fixed_params = [*(fixed_params or pdf.config.suggested_fixed())]
  init_pars[pdf.config.poi_index] = poi_val
  fixed_params[pdf.config.poi_index] = True
  return fit(data, pdf, init_pars, par_bounds, fixed_params, **kwargs)\<close>
  The result comes with the store and the optimizer's state after the call.
\<close>

definition fixed_poi_fit :: "('k, 'e, 'r, 's) optimizer \<Rightarrow> real \<Rightarrow> tensor \<Rightarrow> model \<Rightarrow> nat option
    \<Rightarrow> bound list option \<Rightarrow> nat option \<Rightarrow> 'k \<Rightarrow> heap \<Rightarrow> 's \<Rightarrow> ('e exn + 'r) \<times> heap \<times> 's" where
  "fixed_poi_fit opt poi_val data pdf init_pars par_bounds fixed_params kwargs h s =
     (case poi_index (config pdf) of
        None \<Rightarrow> (Inl UnspecifiedPOI, h, s)
      | Some poi \<Rightarrow>
          (let (init_pars', fl1) =
                 new_list (py_or (map_option (\<lambda>a. flists h ! a) init_pars)
                                 (suggested_init (config pdf))) (flists h);
               h1 = h\<lparr>flists := fl1\<rparr>;
               (fixed_params', bl2) =
                 new_list (py_or (map_option (\<lambda>a. blists h1 ! a) fixed_params)
                                 (suggested_fixed (config pdf))) (blists h1);
               h2 = h1\<lparr>blists := bl2\<rparr>
           in case setitem init_pars' poi poi_val (flists h2) of
                Inl e \<Rightarrow> (Inl e, h2, s)
              | Inr fl3 \<Rightarrow>
                  (let h3 = h2\<lparr>flists := fl3\<rparr>
                   in case setitem fixed_params' poi True (blists h3) of
                        Inl e \<Rightarrow> (Inl e, h3, s)
                      | Inr bl4 \<Rightarrow>
                          (let h4 = h3\<lparr>blists := bl4\<rparr>;
                               (r, s') = fit opt data pdf (Some (flists h4 ! init_pars'))
                                           par_bounds (Some (blists h4 ! fixed_params'))
                                           kwargs s
                           in (r, h4, s')))))"

subsection \<open>The optimizer's side of the contract\<close>

text \<open>
  Modelled from the spec: the optimizer is not part of this module. Its contract (section
  4.3) is that it treats the listed indices as immutable at exactly the given value for the
  duration of the minimization. \<open>best\<close> reads the best-fit parameter vector off a result.
  The pairs \<open>fit\<close> builds always take their value from the initial vector, so the contract
  is asked only of such pairs.
\<close>

definition respects_fixed_vals :: "('k, 'e, 'r, 's) optimizer \<Rightarrow> ('r \<Rightarrow> real list) \<Rightarrow> bool" where
  "respects_fixed_vals opt best \<longleftrightarrow>
     (\<forall>objective data pdf init_pars par_bounds fixed_vals kwargs s r s'.
        (\<forall>(j, v) \<in> set fixed_vals. j < length init_pars \<and> init_pars ! j = v) \<longrightarrow>
        minimize opt objective data pdf init_pars par_bounds fixed_vals kwargs s = (Inr r, s') \<longrightarrow>
        (\<forall>(j, v) \<in> set fixed_vals. best r ! j = v))"

subsection \<open>A model and an optimizer to run the functions on\<close>

text \<open>
  Three parameters, the first one the POI, the last one fixed by default. The density is a
  stand-in that can be computed by hand. The optimizer makes no step: it returns the
  initial parameters, the fixed-value pairs it was given and the objective there, and counts
  its calls in its state.
\<close>

definition example_config :: config where
  "example_config =
     \<lparr>suggested_init = [1, 1, 1],
      suggested_bounds = [(0, 10), (0, 10), (0, 10)],
      suggested_fixed = [False, False, True],
      poi_index = Some 0\<rparr>"

definition example_pdf :: model where
  "example_pdf = \<lparr>config = example_config, logpdf = (\<lambda>pars data. - sum_list pars)\<rparr>"

definition example_opt :: "(unit, unit, real list \<times> (nat \<times> real) list \<times> real, nat) optimizer" where
  "example_opt =
     \<lparr>minimize = (\<lambda>objective data pdf init_pars par_bounds fixed_vals kwargs s.
        (Inr (init_pars, fixed_vals, objective init_pars data pdf), Suc s))\<rparr>"

text \<open>An optimizer that always raises, for the propagation of its failure.\<close>

definition failing_opt :: "(unit, string, real list, nat) optimizer" where
  "failing_opt =
     \<lparr>minimize = (\<lambda>objective data pdf init_pars par_bounds fixed_vals kwargs s.
        (Inl (Other ''no convergence''), Suc s))\<rparr>"

section \<open>Properties\<close>

lemmas example_defs = example_config_def example_pdf_def example_opt_def

lemmas run_defs = fit_def validate_fit_inputs_def twice_nll_def Let_def

subsection \<open>Helper facts\<close>

text \<open>The validation loop returns normally exactly when every zipped pair is in range.\<close>

lemma validate_loop_ok:
  "(validate_loop (enumerate n (zip xs bs)) :: 'e exn + unit) = Inr ()
     \<longleftrightarrow> (\<forall>k < min (length xs) (length bs). fst (bs ! k) \<le> xs ! k \<and> xs ! k \<le> snd (bs ! k))"
proof (induction xs arbitrary: n bs)
  case Nil
  then show ?case by simp
next
  case (Cons x xs)
  show ?case
  proof (cases bs)
    case Nil
    then show ?thesis by simp
  next
    case (Cons b bs')
    show ?thesis
      using Cons.IH [of "Suc n" bs'] Cons
      by (auto simp: less_Suc_eq_0_disj)
  qed
qed

lemma validate_loop_first:
  "i < length xs \<Longrightarrow> i < length bs
   \<Longrightarrow> \<not> (fst (bs ! i) \<le> xs ! i \<and> xs ! i \<le> snd (bs ! i))
   \<Longrightarrow> \<forall>k < i. fst (bs ! k) \<le> xs ! k \<and> xs ! k \<le> snd (bs ! k)
   \<Longrightarrow> (validate_loop (enumerate n (zip xs bs)) :: 'e exn + unit)
        = Inl (ValueError (n + i) (xs ! i) (bs ! i))"
proof (induction xs arbitrary: n bs i)
  case Nil
  then show ?case by simp
next
  case (Cons x xs)
  then obtain b bs' where bs: "bs = b # bs'" by (cases bs) auto
  show ?case
  proof (cases i)
    case 0
    with Cons.prems bs show ?thesis by auto
  next
    case (Suc j)
    have h0: "fst b \<le> x \<and> x \<le> snd b"
      using Cons.prems(4) Suc bs by force
    have hk: "\<forall>k < j. fst (bs' ! k) \<le> xs ! k \<and> xs ! k \<le> snd (bs' ! k)"
      using Cons.prems(4) Suc bs by force
    have "(validate_loop (enumerate (Suc n) (zip xs bs')) :: 'e exn + unit)
            = Inl (ValueError (Suc n + j) (xs ! j) (bs' ! j))"
      using Cons.IH [of j bs' "Suc n"] Cons.prems Suc bs hk by simp
    with h0 Suc bs show ?thesis by simp
  qed
qed

lemma fixed_vals_eq:
  "[(index, init). (index, init, is_fixed) \<leftarrow> enumerate n (zip xs fs), is_fixed]
     = map (\<lambda>i. (n + i, xs ! i)) (filter (\<lambda>i. fs ! i) [0..<min (length xs) (length fs)])"
proof (induction xs arbitrary: n fs)
  case Nil
  then show ?case by simp
next
  case (Cons x xs)
  show ?case
  proof (cases fs)
    case Nil
    then show ?thesis by simp
  next
    case (Cons f fs')
    have up: "[0..<Suc (min (length xs) (length fs'))] = 0 # map Suc [0..<min (length xs) (length fs')]"
      by (simp add: upt_conv_Cons map_Suc_upt del: upt_Suc)
    show ?thesis
      using Cons.IH [of "Suc n" fs'] Cons
      by (simp add: up filter_map comp_def del: upt_Suc)
  qed
qed

lemma py_or_Some_nonempty: "xs \<noteq> [] \<Longrightarrow> py_or (Some xs) d = xs"
  by (cases xs) simp_all

lemma py_or_Some_update: "i < length xs \<Longrightarrow> py_or (Some (xs[i := v])) d = xs[i := v]"
  by (rule py_or_Some_nonempty) auto

lemma fit_valid:
  assumes "(validate_fit_inputs (py_or init_pars (suggested_init (config pdf)))
              (py_or par_bounds (suggested_bounds (config pdf)))
              (py_or fixed_params (suggested_fixed (config pdf))) :: 'e exn + unit) = Inr ()"
  shows "fit (opt :: ('k, 'e, 'r, 's) optimizer) data pdf init_pars par_bounds fixed_params kwargs s =
     minimize opt twice_nll data pdf
       (py_or init_pars (suggested_init (config pdf)))
       (py_or par_bounds (suggested_bounds (config pdf)))
       [(index, init).
          (index, init, is_fixed) \<leftarrow>
             enumerate 0 (zip (py_or init_pars (suggested_init (config pdf)))
                              (py_or fixed_params (suggested_fixed (config pdf)))),
          is_fixed]
       kwargs s"
  using assms by (simp add: fit_def Let_def)

lemma fit_invalid:
  assumes "(validate_fit_inputs (py_or init_pars (suggested_init (config pdf)))
              (py_or par_bounds (suggested_bounds (config pdf)))
              (py_or fixed_params (suggested_fixed (config pdf))) :: 'e exn + unit) = Inl e"
  shows "fit (opt :: ('k, 'e, 'r, 's) optimizer) data pdf init_pars par_bounds fixed_params kwargs s = (Inl e, s)"
  using assms by (simp add: fit_def Let_def)

lemma first_violation:
  fixes I :: "real list" and B :: "bound list"
  assumes "i < length I" "i < length B" "\<not> (fst (B ! i) \<le> I ! i \<and> I ! i \<le> snd (B ! i))"
  shows "\<exists>j\<le>i. (\<forall>k<j. fst (B ! k) \<le> I ! k \<and> I ! k \<le> snd (B ! k))
            \<and> \<not> (fst (B ! j) \<le> I ! j \<and> I ! j \<le> snd (B ! j))
            \<and> (validate_fit_inputs I B F :: 'e exn + unit) = Inl (ValueError j (I ! j) (B ! j))"
proof -
  define bad where "bad = (\<lambda>k. \<not> (fst (B ! k) \<le> I ! k \<and> I ! k \<le> snd (B ! k)))"
  define j where "j = (LEAST k. bad k)"
  have bi: "bad i" using assms(3) by (simp add: bad_def)
  have j_le: "j \<le> i" unfolding j_def using bi by (rule Least_le)
  have bj: "bad j" unfolding j_def using bi by (rule LeastI)
  have below: "\<forall>k<j. \<not> bad k" unfolding j_def using not_less_Least by blast
  have "(validate_loop (enumerate 0 (zip I B)) :: 'e exn + unit) = Inl (ValueError (0 + j) (I ! j) (B ! j))"
  proof (rule validate_loop_first)
    show "j < length I" using j_le assms(1) by simp
    show "j < length B" using j_le assms(2) by simp
    show "\<not> (fst (B ! j) \<le> I ! j \<and> I ! j \<le> snd (B ! j))" using bj by (simp add: bad_def)
    show "\<forall>k<j. fst (B ! k) \<le> I ! k \<and> I ! k \<le> snd (B ! k)" using below by (simp add: bad_def)
  qed
  then have "(validate_fit_inputs I B F :: 'e exn + unit) = Inl (ValueError j (I ! j) (B ! j))"
    by (simp add: validate_fit_inputs_def)
  with j_le bj below show ?thesis unfolding bad_def by blast
qed

lemma fixed_poi_fit_delegates:
  assumes "poi_index (config pdf) = Some poi"
    and "I = py_or (map_option (\<lambda>a. flists h ! a) init_pars) (suggested_init (config pdf))"
    and "F = py_or (map_option (\<lambda>a. blists h ! a) fixed_params) (suggested_fixed (config pdf))"
    and "poi < length I" "poi < length F"
  shows "fixed_poi_fit opt poi_val data pdf init_pars par_bounds fixed_params kwargs h s =
     (case fit opt data pdf (Some (I[poi := poi_val])) par_bounds (Some (F[poi := True])) kwargs s of
        (r, s') \<Rightarrow>
          (r, h\<lparr>flists := flists h @ [I[poi := poi_val]], blists := blists h @ [F[poi := True]]\<rparr>, s'))"
  using assms
  by (simp add: fixed_poi_fit_def new_list_def setitem_def Let_def nth_append split: prod.splits)

lemma fixed_poi_fit_init_short:
  assumes "poi_index (config pdf) = Some poi"
    and "I = py_or (map_option (\<lambda>a. flists h ! a) init_pars) (suggested_init (config pdf))"
    and "F = py_or (map_option (\<lambda>a. blists h ! a) fixed_params) (suggested_fixed (config pdf))"
    and "\<not> poi < length I"
  shows "fixed_poi_fit opt poi_val data pdf init_pars par_bounds fixed_params kwargs h s =
     (Inl IndexError, h\<lparr>flists := flists h @ [I], blists := blists h @ [F]\<rparr>, s)"
  using assms
  by (simp add: fixed_poi_fit_def new_list_def setitem_def Let_def nth_append split: prod.splits)

lemma fixed_poi_fit_fixed_short:
  assumes "poi_index (config pdf) = Some poi"
    and "I = py_or (map_option (\<lambda>a. flists h ! a) init_pars) (suggested_init (config pdf))"
    and "F = py_or (map_option (\<lambda>a. blists h ! a) fixed_params) (suggested_fixed (config pdf))"
    and "poi < length I" "\<not> poi < length F"
  shows "fixed_poi_fit opt poi_val data pdf init_pars par_bounds fixed_params kwargs h s =
     (Inl IndexError, h\<lparr>flists := flists h @ [I[poi := poi_val]], blists := blists h @ [F]\<rparr>, s)"
  using assms
  by (simp add: fixed_poi_fit_def new_list_def setitem_def Let_def nth_append split: prod.splits)

lemma fixed_poi_fit_no_poi:
  "poi_index (config pdf) = None \<Longrightarrow>
   fixed_poi_fit opt poi_val data pdf init_pars par_bounds fixed_params kwargs h s = (Inl UnspecifiedPOI, h, s)"
  by (simp add: fixed_poi_fit_def)

lemma fixed_poi_fit_frame:
  "fixed_poi_fit opt poi_val data pdf init_pars par_bounds fixed_params kwargs h s = (r, h', s')
   \<Longrightarrow> take (length (flists h)) (flists h') = flists h \<and> take (length (blists h)) (blists h') = blists h"
proof (cases "poi_index (config pdf)")
  case None
  assume "fixed_poi_fit opt poi_val data pdf init_pars par_bounds fixed_params kwargs h s = (r, h', s')"
  with fixed_poi_fit_no_poi [OF None, of opt poi_val data init_pars par_bounds fixed_params kwargs h s]
  show ?thesis by simp
next
  case (Some poi)
  assume run: "fixed_poi_fit opt poi_val data pdf init_pars par_bounds fixed_params kwargs h s = (r, h', s')"
  define I where "I = py_or (map_option (\<lambda>a. flists h ! a) init_pars) (suggested_init (config pdf))"
  define F where "F = py_or (map_option (\<lambda>a. blists h ! a) fixed_params) (suggested_fixed (config pdf))"
  consider "\<not> poi < length I" | "poi < length I" "\<not> poi < length F" | "poi < length I" "poi < length F"
    by blast
  then show ?thesis
  proof cases
    case 1
    from fixed_poi_fit_init_short [OF Some I_def F_def 1, of opt poi_val data par_bounds kwargs s] run
    show ?thesis by auto
  next
    case 2
    from fixed_poi_fit_fixed_short [OF Some I_def F_def 2, of opt poi_val data par_bounds kwargs s] run
    show ?thesis by auto
  next
    case 3
    from fixed_poi_fit_delegates [OF Some I_def F_def 3, of opt poi_val data par_bounds kwargs s] run
    show ?thesis by (auto split: prod.splits)
  qed
qed

lemma py_or_Some_same: "py_or (Some d) d = d"
  by (cases d) simp_all

lemma validate_cases:
  obtains e where "(validate_fit_inputs I B F :: 'e exn + unit) = Inl e"
  | "(validate_fit_inputs I B F :: 'e exn + unit) = Inr ()"
  by (cases "validate_fit_inputs I B F :: 'e exn + unit") auto

lemma fixed_poi_fit_success:
  fixes opt :: "('k, 'e, 'r, 's) optimizer"
  assumes poi: "poi_index (config pdf) = Some poi"
    and I: "I = py_or (map_option (\<lambda>a. flists h ! a) init_pars) (suggested_init (config pdf))"
    and F: "F = py_or (map_option (\<lambda>a. blists h ! a) fixed_params) (suggested_fixed (config pdf))"
    and run: "fixed_poi_fit opt poi_val data pdf init_pars par_bounds fixed_params kwargs h s = (Inr r, h', s')"
  shows "poi < length I \<and> poi < length F
     \<and> fit opt data pdf (Some (I[poi := poi_val])) par_bounds (Some (F[poi := True])) kwargs s = (Inr r, s')"
proof -
  have lI: "poi < length I"
  proof (rule ccontr)
    assume n: "\<not> poi < length I"
    from fixed_poi_fit_init_short [OF poi I F n, of opt poi_val data par_bounds kwargs s] run
    show False by simp
  qed
  have lF: "poi < length F"
  proof (rule ccontr)
    assume n: "\<not> poi < length F"
    from fixed_poi_fit_fixed_short [OF poi I F lI n, of opt poi_val data par_bounds kwargs s] run
    show False by simp
  qed
  from fixed_poi_fit_delegates [OF poi I F lI lF, of opt poi_val data par_bounds kwargs s] run
  have "fit opt data pdf (Some (I[poi := poi_val])) par_bounds (Some (F[poi := True])) kwargs s = (Inr r, s')"
    by (auto split: prod.splits)
  with lI lF show ?thesis by simp
qed

lemma respects_fixed_valsD:
  assumes "respects_fixed_vals opt best"
    and "\<forall>(j, v) \<in> set fixed_vals. j < length init_pars \<and> init_pars ! j = v"
    and "minimize opt objective data pdf init_pars par_bounds fixed_vals kwargs s = (Inr r, s')"
    and "(j, v) \<in> set fixed_vals"
  shows "best r ! j = v"
proof -
  from assms(1) have "(\<forall>(j, v) \<in> set fixed_vals. j < length init_pars \<and> init_pars ! j = v) \<longrightarrow>
        minimize opt objective data pdf init_pars par_bounds fixed_vals kwargs s = (Inr r, s') \<longrightarrow>
        (\<forall>(j, v) \<in> set fixed_vals. best r ! j = v)"
    unfolding respects_fixed_vals_def by (elim allE)
  with assms(2) assms(3) have "\<forall>(j, v) \<in> set fixed_vals. best r ! j = v"
    by simp
  with assms(4) show ?thesis by auto
qed

lemma fit_pinned:
  fixes opt :: "('k, 'e, 'r, 's) optimizer"
  assumes resp: "respects_fixed_vals opt best"
    and lI: "poi < length I" and lF: "poi < length F"
    and run: "fit opt data pdf (Some (I[poi := poi_val])) par_bounds (Some (F[poi := True])) kwargs s = (Inr r, s')"
  shows "best r ! poi = poi_val"
proof -
  let ?I = "I[poi := poi_val]" and ?F = "F[poi := True]"
  let ?B = "py_or par_bounds (suggested_bounds (config pdf))"
  let ?fv = "map (\<lambda>i. (i, ?I ! i)) (filter (\<lambda>i. ?F ! i) [0..<min (length ?I) (length ?F)])"
  have rI: "py_or (Some ?I) (suggested_init (config pdf)) = ?I"
    using lI by (rule py_or_Some_update)
  have rF: "py_or (Some ?F) (suggested_fixed (config pdf)) = ?F"
    using lF by (rule py_or_Some_update)
  have ok: "(validate_fit_inputs ?I ?B ?F :: 'e exn + unit) = Inr ()"
  proof (rule validate_cases [of ?I ?B ?F])
    fix e :: "'e exn"
    assume "validate_fit_inputs ?I ?B ?F = Inl e"
    then have "fit opt data pdf (Some ?I) par_bounds (Some ?F) kwargs s = (Inl e, s)"
      by (intro fit_invalid) (simp add: rI rF)
    with run show ?thesis by simp
  next
    assume "(validate_fit_inputs ?I ?B ?F :: 'e exn + unit) = Inr ()"
    then show ?thesis .
  qed
  have "fit opt data pdf (Some ?I) par_bounds (Some ?F) kwargs s
          = minimize opt twice_nll data pdf ?I ?B ?fv kwargs s"
    using fit_valid [of "Some ?I" pdf par_bounds "Some ?F" opt data kwargs s] ok
    by (simp add: rI rF fixed_vals_eq)
  with run have m: "minimize opt twice_nll data pdf ?I ?B ?fv kwargs s = (Inr r, s')"
    by simp
  have wf: "\<forall>(j, v) \<in> set ?fv. j < length ?I \<and> ?I ! j = v"
    by auto
  have mem: "(poi, poi_val) \<in> set ?fv"
    using lI lF by (auto simp: image_iff)
  from resp wf m mem show ?thesis by (rule respects_fixed_valsD)
qed

lemma example_opt_respects: "respects_fixed_vals example_opt fst"
  by (auto simp: respects_fixed_vals_def example_opt_def)

subsection \<open>The objective\<close>

text \<open>
  C1. For every parameter vector, data and model, \<open>twice_nll\<close> returns exactly
  \<open>-2\<close> times the model's log-density at those parameters and data. It is a function of
  its three arguments only.
\<close>

theorem twice_nll_is_minus_two_logpdf:
  "twice_nll pars data pdf = - 2 * logpdf pdf pars data"
  by (simp add: twice_nll_def)

text \<open>At the example model, whose density at \<open>[1, 1, 1]\<close> is \<open>-3\<close>.\<close>

theorem twice_nll_is_minus_two_logpdf_witness:
  "twice_nll [1, 1, 1] [] example_pdf = 6"
  using twice_nll_is_minus_two_logpdf [of "[1, 1, 1]" "[]" example_pdf]
  by (simp add: example_defs)

subsection \<open>Validation of the initial values\<close>

text \<open>
  C2. Let \<open>I\<close> and \<open>B\<close> be the initial values and bounds \<open>fit\<close> resolves. If some index
  \<open>i\<close> has \<open>I[i]\<close> outside the closed interval \<open>B[i]\<close>, then \<open>fit\<close> raises the bounds
  error (the \<open>ValueError\<close> of \<open>_validate_fit_inputs\<close>) carrying an index \<open>j\<close>, the value
  \<open>I[j]\<close> and the bound \<open>B[j]\<close>, where \<open>j\<close> is the smallest violating index. The optimizer
  is not invoked: its state is returned as it was, whatever the optimizer is. Nothing is
  clamped: the call ends in the error.
\<close>

theorem fit_raises_at_first_out_of_bounds:
  fixes opt :: "('k, 'e, 'r, 's) optimizer"
  assumes "I = py_or init_pars (suggested_init (config pdf))"
    and "B = py_or par_bounds (suggested_bounds (config pdf))"
    and "i < length I" and "i < length B"
    and "\<not> (fst (B ! i) \<le> I ! i \<and> I ! i \<le> snd (B ! i))"
  shows "\<exists>j\<le>i. (\<forall>k<j. fst (B ! k) \<le> I ! k \<and> I ! k \<le> snd (B ! k))
           \<and> \<not> (fst (B ! j) \<le> I ! j \<and> I ! j \<le> snd (B ! j))
           \<and> fit opt data pdf init_pars par_bounds fixed_params kwargs s
               = (Inl (ValueError j (I ! j) (B ! j)), s)"
proof -
  let ?F = "py_or fixed_params (suggested_fixed (config pdf))"
  from first_violation [OF assms(3) assms(4) assms(5), of ?F]
  obtain j where j: "j \<le> i"
      "\<forall>k<j. fst (B ! k) \<le> I ! k \<and> I ! k \<le> snd (B ! k)"
      "\<not> (fst (B ! j) \<le> I ! j \<and> I ! j \<le> snd (B ! j))"
      "(validate_fit_inputs I B ?F :: 'e exn + unit) = Inl (ValueError j (I ! j) (B ! j))"
    by blast
  have "fit opt data pdf init_pars par_bounds fixed_params kwargs s
          = (Inl (ValueError j (I ! j) (B ! j)), s)"
    using j(4) unfolding assms(1) assms(2) by (rule fit_invalid)
  with j(1) j(2) j(3) show ?thesis by blast
qed

text \<open>Two violations, at indices 1 and 2: the error names index 1.\<close>

theorem fit_raises_at_first_out_of_bounds_witness:
  "(\<exists>j\<le>2. fit example_opt [] example_pdf (Some [1, 11, 12]) None None () 0
              = (Inl (ValueError j ([1, 11, 12] ! j) ([(0, 10), (0, 10), (0, 10)] ! j)), 0))
   \<and> fit example_opt [] example_pdf (Some [1, 11, 12]) None None () 0
       = (Inl (ValueError 1 11 (0, 10)), 0)"
proof
  have "\<exists>j\<le>2. (\<forall>k<j. fst ([(0, 10), (0, 10), (0, 10) :: bound] ! k) \<le> [1, 11, 12 :: real] ! k
                      \<and> [1, 11, 12 :: real] ! k \<le> snd ([(0, 10), (0, 10), (0, 10) :: bound] ! k))
           \<and> \<not> (fst ([(0, 10), (0, 10), (0, 10) :: bound] ! j) \<le> [1, 11, 12 :: real] ! j
                   \<and> [1, 11, 12 :: real] ! j \<le> snd ([(0, 10), (0, 10), (0, 10) :: bound] ! j))
           \<and> fit example_opt [] example_pdf (Some [1, 11, 12]) None None () 0
               = (Inl (ValueError j ([1, 11, 12] ! j) ([(0, 10), (0, 10), (0, 10)] ! j)), 0)"
    by (rule fit_raises_at_first_out_of_bounds) (simp_all add: example_defs)
  then show "\<exists>j\<le>2. fit example_opt [] example_pdf (Some [1, 11, 12]) None None () 0
              = (Inl (ValueError j ([1, 11, 12] ! j) ([(0, 10), (0, 10), (0, 10)] ! j)), 0)"
    by blast
  show "fit example_opt [] example_pdf (Some [1, 11, 12]) None None () 0
       = (Inl (ValueError 1 11 (0, 10)), 0)"
    by (simp add: run_defs example_defs)
qed

subsection \<open>Pinning the POI\<close>

text \<open>
  C3. Let the model have the POI index \<open>poi\<close>, and let \<open>I\<close> and \<open>F\<close> be the initial values
  and the fixed mask \<open>fixed_poi_fit\<close> resolves (the caller's lists, or the model's
  defaults). When \<open>poi\<close> is a position of both lists, \<open>fixed_poi_fit\<close> is the call of
  \<open>fit\<close> on \<open>I\<close> with entry \<open>poi\<close> overwritten by \<open>poi_val\<close> and \<open>F\<close> with entry \<open>poi\<close>
  overwritten by true, whatever the caller's mask said there. Whenever \<open>fixed_poi_fit\<close>
  returns a result from an optimizer that holds fixed parameters at their values, the POI
  entry of the best-fit vector is exactly \<open>poi_val\<close>.
\<close>

theorem fixed_poi_fit_pins_poi:
  fixes opt :: "('k, 'e, 'r, 's) optimizer"
  assumes poi: "poi_index (config pdf) = Some poi"
    and I: "I = py_or (map_option (\<lambda>a. flists h ! a) init_pars) (suggested_init (config pdf))"
    and F: "F = py_or (map_option (\<lambda>a. blists h ! a) fixed_params) (suggested_fixed (config pdf))"
  shows "(poi < length I \<and> poi < length F \<longrightarrow>
            (\<exists>h'. fixed_poi_fit opt poi_val data pdf init_pars par_bounds fixed_params kwargs h s
               = (case fit opt data pdf (Some (I[poi := poi_val])) par_bounds
                         (Some (F[poi := True])) kwargs s of
                    (r, s') \<Rightarrow> (r, h', s'))))
       \<and> (\<forall>r h' s'. respects_fixed_vals opt best \<longrightarrow>
            fixed_poi_fit opt poi_val data pdf init_pars par_bounds fixed_params kwargs h s
              = (Inr r, h', s') \<longrightarrow>
            best r ! poi = poi_val)"
proof (intro conjI impI allI)
  assume "poi < length I \<and> poi < length F"
  then have lI: "poi < length I" and lF: "poi < length F" by simp_all
  from fixed_poi_fit_delegates [OF poi I F lI lF, of opt poi_val data par_bounds kwargs s]
  show "\<exists>h'. fixed_poi_fit opt poi_val data pdf init_pars par_bounds fixed_params kwargs h s
               = (case fit opt data pdf (Some (I[poi := poi_val])) par_bounds
                         (Some (F[poi := True])) kwargs s of
                    (r, s') \<Rightarrow> (r, h', s'))"
    by blast
next
  fix r h' s'
  assume resp: "respects_fixed_vals opt best"
    and run: "fixed_poi_fit opt poi_val data pdf init_pars par_bounds fixed_params kwargs h s
                = (Inr r, h', s')"
  from fixed_poi_fit_success [OF poi I F run]
  have lI: "poi < length I" and lF: "poi < length F"
    and f: "fit opt data pdf (Some (I[poi := poi_val])) par_bounds (Some (F[poi := True])) kwargs s
              = (Inr r, s')"
    by simp_all
  from resp lI lF f show "best r ! poi = poi_val" by (rule fit_pinned)
qed

text \<open>The caller's mask is false at the POI; the pair \<open>(0, 5)\<close> reaches the optimizer.\<close>

theorem fixed_poi_fit_pins_poi_witness:
  "fixed_poi_fit example_opt 5 [] example_pdf (Some 0) None (Some 0) ()
      \<lparr>flists = [[2, 3, 4]], blists = [[False, True, False]]\<rparr> 0
     = (Inr ([5, 3, 4], [(0, 5), (1, 3)], 24),
        \<lparr>flists = [[2, 3, 4], [5, 3, 4]],
         blists = [[False, True, False], [True, True, False]]\<rparr>, 1)
   \<and> fst ([5, 3, 4], [(0 :: nat, 5 :: real), (1, 3)], 24 :: real) ! 0 = (5 :: real)"
proof
  let ?H = "\<lparr>flists = [[2, 3, 4]], blists = [[False, True, False]]\<rparr>"
  let ?H' = "\<lparr>flists = [[2, 3, 4], [5, 3, 4]],
              blists = [[False, True, False], [True, True, False]]\<rparr>"
  show run: "fixed_poi_fit example_opt 5 [] example_pdf (Some 0) None (Some 0) () ?H 0
     = (Inr ([5, 3, 4], [(0, 5), (1, 3)], 24), ?H', 1)"
    by (simp add: fixed_poi_fit_def new_list_def setitem_def run_defs example_defs)
  have a1: "poi_index (config example_pdf) = Some 0"
    by (simp add: example_defs)
  have a2: "[2, 3, 4] = py_or (map_option (\<lambda>a. flists ?H ! a) (Some 0))
                            (suggested_init (config example_pdf))"
    by simp
  have a3: "[False, True, False] = py_or (map_option (\<lambda>a. blists ?H ! a) (Some 0))
                            (suggested_fixed (config example_pdf))"
    by simp
  note pinned = fixed_poi_fit_pins_poi [OF a1 a2 a3, of example_opt 5 "[]" None "()" 0 fst,
      THEN conjunct2]
  from pinned example_opt_respects run
  show "fst ([5, 3, 4], [(0 :: nat, 5 :: real), (1, 3)], 24 :: real) ! 0 = (5 :: real)"
    by blast
qed

subsection \<open>The guard of the fixed-POI fit\<close>

text \<open>
  C4. On a model with no POI index, \<open>fixed_poi_fit\<close> raises \<open>UnspecifiedPOI\<close>; the store
  of list objects and the optimizer's state are returned as they were, so no list was
  made or assigned to and the optimizer was not called.
\<close>

theorem fixed_poi_fit_without_poi:
  assumes "poi_index (config pdf) = None"
  shows "fixed_poi_fit opt poi_val data pdf init_pars par_bounds fixed_params kwargs h s
           = (Inl UnspecifiedPOI, h, s)"
  using assms by (simp add: fixed_poi_fit_def)

theorem fixed_poi_fit_without_poi_witness:
  "fixed_poi_fit example_opt 1 [] (example_pdf\<lparr>config := example_config\<lparr>poi_index := None\<rparr>\<rparr>)
     (Some 0) None (Some 0) () \<lparr>flists = [[1, 2, 3]], blists = [[False, False, False]]\<rparr> 0
   = (Inl UnspecifiedPOI, \<lparr>flists = [[1, 2, 3]], blists = [[False, False, False]]\<rparr>, 0)"
  by (rule fixed_poi_fit_without_poi) simp

subsection \<open>The fixed-value pairs\<close>

text \<open>
  C5. Let \<open>I\<close>, \<open>B\<close> and \<open>m\<close> be the resolved initial values, bounds and fixed mask, and
  let validation pass. The fixed-value pairs \<open>fit\<close> passes to the optimizer are exactly the
  pairs \<open>(i, I[i])\<close> for the indices \<open>i\<close> with \<open>m[i]\<close> true, in ascending order of \<open>i\<close>
  (the indices are those of \<open>zip\<close>, below both lengths). A mask that is false everywhere,
  or empty, gives the empty list.
\<close>

theorem fit_passes_fixed_pairs:
  fixes opt :: "('k, 'e, 'r, 's) optimizer"
  assumes "I = py_or init_pars (suggested_init (config pdf))"
    and "B = py_or par_bounds (suggested_bounds (config pdf))"
    and "m = py_or fixed_params (suggested_fixed (config pdf))"
    and "(validate_fit_inputs I B m :: 'e exn + unit) = Inr ()"
  shows "fit opt data pdf init_pars par_bounds fixed_params kwargs s
           = minimize opt twice_nll data pdf I B
               (map (\<lambda>i. (i, I ! i)) (filter (\<lambda>i. m ! i) [0..<min (length I) (length m)])) kwargs s
         \<and> ((\<forall>i<length m. \<not> m ! i) \<longrightarrow>
              map (\<lambda>i. (i, I ! i)) (filter (\<lambda>i. m ! i) [0..<min (length I) (length m)]) = [])"
proof
  show "fit opt data pdf init_pars par_bounds fixed_params kwargs s
           = minimize opt twice_nll data pdf I B
               (map (\<lambda>i. (i, I ! i)) (filter (\<lambda>i. m ! i) [0..<min (length I) (length m)])) kwargs s"
    using fit_valid [of init_pars pdf par_bounds fixed_params opt data kwargs s] assms
    by (simp add: fixed_vals_eq)
  show "(\<forall>i<length m. \<not> m ! i) \<longrightarrow>
          map (\<lambda>i. (i, I ! i)) (filter (\<lambda>i. m ! i) [0..<min (length I) (length m)]) = []"
    by (auto simp: filter_empty_conv)
qed

text \<open>The example optimizer returns the pairs it was given.\<close>

theorem fit_passes_fixed_pairs_witness:
  "fit example_opt [] example_pdf (Some [2, 3, 4]) None (Some [True, False, True]) () 0
     = (Inr ([2, 3, 4], [(0, 2), (2, 4)], 18), 1)
   \<and> fit example_opt [] example_pdf (Some [2, 3, 4]) None (Some [False, False, False]) () 0
     = (Inr ([2, 3, 4], [], 18), 1)"
proof
  have "fit example_opt [] example_pdf (Some [2, 3, 4]) None (Some [True, False, True]) () 0
          = minimize example_opt twice_nll [] example_pdf [2, 3, 4] [(0, 10), (0, 10), (0, 10)]
              (map (\<lambda>i. (i, [2, 3, 4] ! i))
                 (filter (\<lambda>i. [True, False, True] ! i)
                    [0..<min (length [2, 3, 4 :: real]) (length [True, False, True])])) () 0
         \<and> ((\<forall>i<length [True, False, True]. \<not> [True, False, True] ! i) \<longrightarrow>
              map (\<lambda>i. (i, [2, 3, 4 :: real] ! i))
                 (filter (\<lambda>i. [True, False, True] ! i)
                    [0..<min (length [2, 3, 4 :: real]) (length [True, False, True])]) = [])"
    by (rule fit_passes_fixed_pairs) (simp_all add: validate_fit_inputs_def example_defs)
  then show "fit example_opt [] example_pdf (Some [2, 3, 4]) None (Some [True, False, True]) () 0
     = (Inr ([2, 3, 4], [(0, 2), (2, 4)], 18), 1)"
    by (simp add: example_defs twice_nll_def upt_rec)
  show "fit example_opt [] example_pdf (Some [2, 3, 4]) None (Some [False, False, False]) () 0
     = (Inr ([2, 3, 4], [], 18), 1)"
    by (simp add: run_defs example_defs)
qed

subsection \<open>Defaults\<close>

text \<open>
  C6. An omitted \<open>init_pars\<close>, \<open>par_bounds\<close> or \<open>fixed_params\<close> of \<open>fit\<close> is filled from the
  model's \<open>suggested_init()\<close>, \<open>suggested_bounds()\<close> or \<open>suggested_fixed()\<close>: omitting
  one is the same as passing the model's value for it, whatever the other two arguments
  are. With all three omitted, \<open>fit\<close> validates and minimizes on exactly the three
  suggested values.
\<close>

theorem fit_fills_defaults_independently:
  fixes opt :: "('k, 'e, 'r, 's) optimizer"
  shows "fit opt data pdf None par_bounds fixed_params kwargs s
           = fit opt data pdf (Some (suggested_init (config pdf))) par_bounds fixed_params kwargs s
       \<and> fit opt data pdf init_pars None fixed_params kwargs s
           = fit opt data pdf init_pars (Some (suggested_bounds (config pdf))) fixed_params kwargs s
       \<and> fit opt data pdf init_pars par_bounds None kwargs s
           = fit opt data pdf init_pars par_bounds (Some (suggested_fixed (config pdf))) kwargs s
       \<and> fit opt data pdf None None None kwargs s
           = (case (validate_fit_inputs (suggested_init (config pdf)) (suggested_bounds (config pdf))
                      (suggested_fixed (config pdf)) :: 'e exn + unit) of
                Inl e \<Rightarrow> (Inl e, s)
              | Inr u \<Rightarrow>
                  minimize opt twice_nll data pdf (suggested_init (config pdf))
                    (suggested_bounds (config pdf))
                    (map (\<lambda>i. (i, suggested_init (config pdf) ! i))
                       (filter (\<lambda>i. suggested_fixed (config pdf) ! i)
                          [0..<min (length (suggested_init (config pdf)))
                                   (length (suggested_fixed (config pdf)))]))
                    kwargs s)"
proof (intro conjI)
  show "fit opt data pdf None par_bounds fixed_params kwargs s
           = fit opt data pdf (Some (suggested_init (config pdf))) par_bounds fixed_params kwargs s"
    by (simp add: fit_def py_or_Some_same)
  show "fit opt data pdf init_pars None fixed_params kwargs s
           = fit opt data pdf init_pars (Some (suggested_bounds (config pdf))) fixed_params kwargs s"
    by (simp add: fit_def py_or_Some_same)
  show "fit opt data pdf init_pars par_bounds None kwargs s
           = fit opt data pdf init_pars par_bounds (Some (suggested_fixed (config pdf))) kwargs s"
    by (simp add: fit_def py_or_Some_same)
  show "fit opt data pdf None None None kwargs s
           = (case (validate_fit_inputs (suggested_init (config pdf)) (suggested_bounds (config pdf))
                      (suggested_fixed (config pdf)) :: 'e exn + unit) of
                Inl e \<Rightarrow> (Inl e, s)
              | Inr u \<Rightarrow>
                  minimize opt twice_nll data pdf (suggested_init (config pdf))
                    (suggested_bounds (config pdf))
                    (map (\<lambda>i. (i, suggested_init (config pdf) ! i))
                       (filter (\<lambda>i. suggested_fixed (config pdf) ! i)
                          [0..<min (length (suggested_init (config pdf)))
                                   (length (suggested_fixed (config pdf)))]))
                    kwargs s)"
    by (simp add: fit_def Let_def fixed_vals_eq split: sum.splits)
qed

text \<open>No override, and each of the three overridden alone.\<close>

theorem fit_fills_defaults_independently_witness:
  "fit example_opt [] example_pdf None None None () 0 = (Inr ([1, 1, 1], [(2, 1)], 6), 1)
   \<and> fit example_opt [] example_pdf (Some [2, 3, 4]) None None () 0
       = (Inr ([2, 3, 4], [(2, 4)], 18), 1)
   \<and> fit example_opt [] example_pdf None (Some [(0, 1), (0, 1), (0, 1)]) None () 0
       = (Inr ([1, 1, 1], [(2, 1)], 6), 1)
   \<and> fit example_opt [] example_pdf None (Some [(2, 3), (0, 1), (0, 1)]) None () 0
       = (Inl (ValueError 0 1 (2, 3)), 0)
   \<and> fit example_opt [] example_pdf None None (Some [True, False, False]) () 0
       = (Inr ([1, 1, 1], [(0, 1)], 6), 1)"
proof (intro conjI)
  note t = fit_fills_defaults_independently [of example_opt "[]" example_pdf _ _ "()" 0]
  show "fit example_opt [] example_pdf None None None () 0 = (Inr ([1, 1, 1], [(2, 1)], 6), 1)"
    using t [THEN conjunct2, THEN conjunct2, THEN conjunct2]
    by (simp add: validate_fit_inputs_def twice_nll_def example_defs upt_rec)
  show "fit example_opt [] example_pdf (Some [2, 3, 4]) None None () 0
       = (Inr ([2, 3, 4], [(2, 4)], 18), 1)"
    by (simp add: run_defs example_defs)
  show "fit example_opt [] example_pdf None (Some [(0, 1), (0, 1), (0, 1)]) None () 0
       = (Inr ([1, 1, 1], [(2, 1)], 6), 1)"
    by (simp add: run_defs example_defs)
  show "fit example_opt [] example_pdf None (Some [(2, 3), (0, 1), (0, 1)]) None () 0
       = (Inl (ValueError 0 1 (2, 3)), 0)"
    by (simp add: run_defs example_defs)
  show "fit example_opt [] example_pdf None None (Some [True, False, False]) () 0
       = (Inr ([1, 1, 1], [(0, 1)], 6), 1)"
    by (simp add: run_defs example_defs)
qed

text \<open>
  C7. An explicitly empty list for \<open>init_pars\<close>, \<open>par_bounds\<close> or \<open>fixed_params\<close> is
  falsy, so \<open>fit\<close> and \<open>fixed_poi_fit\<close> resolve it to the model's default: the call is the
  same as the call with the argument omitted.
\<close>

theorem falsy_argument_is_default:
  fixes opt :: "('k, 'e, 'r, 's) optimizer"
  shows "fit opt data pdf (Some []) par_bounds fixed_params kwargs s
           = fit opt data pdf None par_bounds fixed_params kwargs s
       \<and> fit opt data pdf init_pars (Some []) fixed_params kwargs s
           = fit opt data pdf init_pars None fixed_params kwargs s
       \<and> fit opt data pdf init_pars par_bounds (Some []) kwargs s
           = fit opt data pdf init_pars par_bounds None kwargs s
       \<and> (flists h ! a = [] \<longrightarrow>
            fixed_poi_fit opt poi_val data pdf (Some a) par_bounds fixed_refs kwargs h s
              = fixed_poi_fit opt poi_val data pdf None par_bounds fixed_refs kwargs h s)
       \<and> fixed_poi_fit opt poi_val data pdf init_refs (Some []) fixed_refs kwargs h s
           = fixed_poi_fit opt poi_val data pdf init_refs None fixed_refs kwargs h s
       \<and> (blists h ! b = [] \<longrightarrow>
            fixed_poi_fit opt poi_val data pdf init_refs par_bounds (Some b) kwargs h s
              = fixed_poi_fit opt poi_val data pdf init_refs par_bounds None kwargs h s)"
proof (intro conjI impI)
  show "fit opt data pdf (Some []) par_bounds fixed_params kwargs s
           = fit opt data pdf None par_bounds fixed_params kwargs s"
    by (simp add: fit_def)
  show "fit opt data pdf init_pars (Some []) fixed_params kwargs s
           = fit opt data pdf init_pars None fixed_params kwargs s"
    by (simp add: fit_def)
  show "fit opt data pdf init_pars par_bounds (Some []) kwargs s
           = fit opt data pdf init_pars par_bounds None kwargs s"
    by (simp add: fit_def)
  have b: "\<And>ip fp. fit opt data pdf ip (Some []) fp kwargs s = fit opt data pdf ip None fp kwargs s"
    by (simp add: fit_def)
  show "fixed_poi_fit opt poi_val data pdf init_refs (Some []) fixed_refs kwargs h s
           = fixed_poi_fit opt poi_val data pdf init_refs None fixed_refs kwargs h s"
    by (simp add: fixed_poi_fit_def b Let_def split: option.splits sum.splits prod.splits)
next
  assume "flists h ! a = []"
  then show "fixed_poi_fit opt poi_val data pdf (Some a) par_bounds fixed_refs kwargs h s
              = fixed_poi_fit opt poi_val data pdf None par_bounds fixed_refs kwargs h s"
    by (simp add: fixed_poi_fit_def split: option.splits)
next
  assume "blists h ! b = []"
  then show "fixed_poi_fit opt poi_val data pdf init_refs par_bounds (Some b) kwargs h s
              = fixed_poi_fit opt poi_val data pdf init_refs par_bounds None kwargs h s"
    by (simp add: fixed_poi_fit_def new_list_def split: option.splits)
qed

theorem falsy_argument_is_default_witness:
  "fit example_opt [] example_pdf (Some []) (Some []) (Some []) () 0
     = (Inr ([1, 1, 1], [(2, 1)], 6), 1)
   \<and> fit example_opt [] example_pdf (Some []) (Some []) (Some []) () 0
     = fit example_opt [] example_pdf None None None () 0
   \<and> fixed_poi_fit example_opt 5 [] example_pdf (Some 0) (Some []) (Some 0) ()
       \<lparr>flists = [[]], blists = [[]]\<rparr> 0
     = (Inr ([5, 1, 1], [(0, 5), (2, 1)], 14),
        \<lparr>flists = [[], [5, 1, 1]], blists = [[], [True, False, True]]\<rparr>, 1)
   \<and> fixed_poi_fit example_opt 5 [] example_pdf (Some 0) (Some []) (Some 0) ()
       \<lparr>flists = [[]], blists = [[]]\<rparr> 0
     = fixed_poi_fit example_opt 5 [] example_pdf None None None ()
       \<lparr>flists = [[]], blists = [[]]\<rparr> 0"
proof (intro conjI)
  let ?H = "\<lparr>flists = [[]], blists = [[]]\<rparr>"
  show "fit example_opt [] example_pdf (Some []) (Some []) (Some []) () 0
     = (Inr ([1, 1, 1], [(2, 1)], 6), 1)"
    by (simp add: run_defs example_defs)
  note f = falsy_argument_is_default [where opt = example_opt and data = "[]" and pdf = example_pdf
      and kwargs = "()" and s = 0]
  have "fit example_opt [] example_pdf (Some []) (Some []) (Some []) () 0
          = fit example_opt [] example_pdf None (Some []) (Some []) () 0"
    by (rule f [THEN conjunct1])
  also have "\<dots> = fit example_opt [] example_pdf None None (Some []) () 0"
    by (rule f [THEN conjunct2, THEN conjunct1])
  also have "\<dots> = fit example_opt [] example_pdf None None None () 0"
    by (rule f [THEN conjunct2, THEN conjunct2, THEN conjunct1])
  finally show "fit example_opt [] example_pdf (Some []) (Some []) (Some []) () 0
     = fit example_opt [] example_pdf None None None () 0" .
  show "fixed_poi_fit example_opt 5 [] example_pdf (Some 0) (Some []) (Some 0) () ?H 0
     = (Inr ([5, 1, 1], [(0, 5), (2, 1)], 14),
        \<lparr>flists = [[], [5, 1, 1]], blists = [[], [True, False, True]]\<rparr>, 1)"
    by (simp add: fixed_poi_fit_def new_list_def setitem_def run_defs example_defs)
  show "fixed_poi_fit example_opt 5 [] example_pdf (Some 0) (Some []) (Some 0) () ?H 0
     = fixed_poi_fit example_opt 5 [] example_pdf None None None () ?H 0"
    by (simp add: fixed_poi_fit_def new_list_def setitem_def run_defs example_defs)
qed

subsection \<open>The optimizer's result\<close>

text \<open>
  C8. When the resolved inputs pass validation, \<open>fit\<close> returns what \<open>opt.minimize\<close>
  returns on \<open>twice_nll\<close>, the data, the model, the resolved initial values and bounds,
  the fixed-value pairs and the keyword arguments: its result as it is, or the exception
  it raises as it is.
\<close>

theorem fit_returns_optimizer_result:
  fixes opt :: "('k, 'e, 'r, 's) optimizer"
  assumes "I = py_or init_pars (suggested_init (config pdf))"
    and "B = py_or par_bounds (suggested_bounds (config pdf))"
    and "F = py_or fixed_params (suggested_fixed (config pdf))"
    and "(validate_fit_inputs I B F :: 'e exn + unit) = Inr ()"
  shows "fit opt data pdf init_pars par_bounds fixed_params kwargs s
           = minimize opt twice_nll data pdf I B
               [(index, init). (index, init, is_fixed) \<leftarrow> enumerate 0 (zip I F), is_fixed]
               kwargs s"
  using assms fit_valid [of init_pars pdf par_bounds fixed_params opt data kwargs s]
  by simp

text \<open>An optimizer that returns, and one that raises.\<close>

theorem fit_returns_optimizer_result_witness:
  "fit example_opt [] example_pdf (Some [2, 3, 4]) None None () 0
     = minimize example_opt twice_nll [] example_pdf [2, 3, 4] [(0, 10), (0, 10), (0, 10)]
         [(2, 4)] () 0
   \<and> fit failing_opt [] example_pdf (Some [2, 3, 4]) None None () 0
     = (Inl (Other ''no convergence''), 1)"
proof
  have "fit example_opt [] example_pdf (Some [2, 3, 4]) None None () 0
     = minimize example_opt twice_nll [] example_pdf [2, 3, 4] [(0, 10), (0, 10), (0, 10)]
         [(index, init).
            (index, init, is_fixed) \<leftarrow> enumerate 0 (zip [2, 3, 4] [False, False, True]),
            is_fixed] () 0"
    by (rule fit_returns_optimizer_result) (simp_all add: validate_fit_inputs_def example_defs)
  then show "fit example_opt [] example_pdf (Some [2, 3, 4]) None None () 0
     = minimize example_opt twice_nll [] example_pdf [2, 3, 4] [(0, 10), (0, 10), (0, 10)]
         [(2, 4)] () 0"
    by (simp add: numeral_2_eq_2)
  have "fit failing_opt [] example_pdf (Some [2, 3, 4]) None None () 0
     = minimize failing_opt twice_nll [] example_pdf [2, 3, 4] [(0, 10), (0, 10), (0, 10)]
         [(index, init).
            (index, init, is_fixed) \<leftarrow> enumerate 0 (zip [2, 3, 4] [False, False, True]),
            is_fixed] () 0"
    by (rule fit_returns_optimizer_result) (simp_all add: validate_fit_inputs_def example_defs)
  then show "fit failing_opt [] example_pdf (Some [2, 3, 4]) None None () 0
     = (Inl (Other ''no convergence''), 1)"
    by (simp add: failing_opt_def)
qed

subsection \<open>The caller's lists\<close>

text \<open>
  C9. After \<open>fixed_poi_fit\<close>, every list object that existed before the call is
  unchanged, the caller's \<open>init_pars\<close> and \<open>fixed_params\<close> among them: the two
  assignments go to the two list objects the call made. \<open>par_bounds\<close> reaches \<open>fit\<close> as
  the caller passed it.
\<close>

theorem fixed_poi_fit_leaves_caller_lists:
  fixes opt :: "('k, 'e, 'r, 's) optimizer"
  assumes run: "fixed_poi_fit opt poi_val data pdf init_pars par_bounds fixed_params kwargs h s
                  = (r, h', s')"
    and I: "I = py_or (map_option (\<lambda>a. flists h ! a) init_pars) (suggested_init (config pdf))"
    and F: "F = py_or (map_option (\<lambda>a. blists h ! a) fixed_params) (suggested_fixed (config pdf))"
  shows "take (length (flists h)) (flists h') = flists h
       \<and> take (length (blists h)) (blists h') = blists h
       \<and> (\<forall>a. init_pars = Some a \<and> a < length (flists h) \<longrightarrow> flists h' ! a = flists h ! a)
       \<and> (\<forall>b. fixed_params = Some b \<and> b < length (blists h) \<longrightarrow> blists h' ! b = blists h ! b)
       \<and> (\<forall>poi. poi_index (config pdf) = Some poi \<and> poi < length I \<and> poi < length F \<longrightarrow>
            flists h' = flists h @ [I[poi := poi_val]]
          \<and> blists h' = blists h @ [F[poi := True]]
          \<and> (r, s') = fit opt data pdf (Some (I[poi := poi_val])) par_bounds
                         (Some (F[poi := True])) kwargs s)"
proof -
  from fixed_poi_fit_frame [OF run]
  have fr: "take (length (flists h)) (flists h') = flists h"
    and br: "take (length (blists h)) (blists h') = blists h"
    by simp_all
  have fa: "\<forall>a. init_pars = Some a \<and> a < length (flists h) \<longrightarrow> flists h' ! a = flists h ! a"
  proof (intro allI impI)
    fix a
    assume "init_pars = Some a \<and> a < length (flists h)"
    then have "a < length (flists h)" by simp
    then have "take (length (flists h)) (flists h') ! a = flists h' ! a" by simp
    with fr show "flists h' ! a = flists h ! a" by simp
  qed
  have ba: "\<forall>b. fixed_params = Some b \<and> b < length (blists h) \<longrightarrow> blists h' ! b = blists h ! b"
  proof (intro allI impI)
    fix b
    assume "fixed_params = Some b \<and> b < length (blists h)"
    then have "b < length (blists h)" by simp
    then have "take (length (blists h)) (blists h') ! b = blists h' ! b" by simp
    with br show "blists h' ! b = blists h ! b" by simp
  qed
  have del: "\<forall>poi. poi_index (config pdf) = Some poi \<and> poi < length I \<and> poi < length F \<longrightarrow>
            flists h' = flists h @ [I[poi := poi_val]]
          \<and> blists h' = blists h @ [F[poi := True]]
          \<and> (r, s') = fit opt data pdf (Some (I[poi := poi_val])) par_bounds
                         (Some (F[poi := True])) kwargs s"
  proof (intro allI impI)
    fix poi
    assume a: "poi_index (config pdf) = Some poi \<and> poi < length I \<and> poi < length F"
    then have p: "poi_index (config pdf) = Some poi" and lI: "poi < length I" and lF: "poi < length F"
      by simp_all
    from fixed_poi_fit_delegates [OF p I F lI lF, of opt poi_val data par_bounds kwargs s] run
    show "flists h' = flists h @ [I[poi := poi_val]]
          \<and> blists h' = blists h @ [F[poi := True]]
          \<and> (r, s') = fit opt data pdf (Some (I[poi := poi_val])) par_bounds
                         (Some (F[poi := True])) kwargs s"
      by (auto split: prod.splits)
  qed
  from fr br fa ba del show ?thesis by blast
qed

text \<open>The caller's two lists, at address 0 of the store, after the call.\<close>

theorem fixed_poi_fit_leaves_caller_lists_witness:
  "fixed_poi_fit example_opt 5 [] example_pdf (Some 0) (Some [(0, 6), (0, 6), (0, 6)]) (Some 0) ()
      \<lparr>flists = [[2, 3, 4]], blists = [[False, True, False]]\<rparr> 0
     = (Inr ([5, 3, 4], [(0, 5), (1, 3)], 24),
        \<lparr>flists = [[2, 3, 4], [5, 3, 4]],
         blists = [[False, True, False], [True, True, False]]\<rparr>, 1)
   \<and> flists \<lparr>flists = [[2, 3, 4], [5, 3, 4 :: real]],
         blists = [[False, True, False], [True, True, False]]\<rparr> ! 0 = [2, 3, 4]
   \<and> blists \<lparr>flists = [[2, 3, 4], [5, 3, 4 :: real]],
         blists = [[False, True, False], [True, True, False]]\<rparr> ! 0 = [False, True, False]"
proof (intro conjI)
  let ?H = "\<lparr>flists = [[2, 3, 4]], blists = [[False, True, False]]\<rparr>"
  let ?H' = "\<lparr>flists = [[2, 3, 4], [5, 3, 4 :: real]],
              blists = [[False, True, False], [True, True, False]]\<rparr>"
  show run: "fixed_poi_fit example_opt 5 [] example_pdf (Some 0) (Some [(0, 6), (0, 6), (0, 6)])
      (Some 0) () ?H 0
     = (Inr ([5, 3, 4], [(0, 5), (1, 3)], 24), ?H', 1)"
    by (simp add: fixed_poi_fit_def new_list_def setitem_def run_defs example_defs)
  note t = fixed_poi_fit_leaves_caller_lists [OF run refl refl]
  from t [THEN conjunct2, THEN conjunct2, THEN conjunct1]
  show "flists ?H' ! 0 = [2, 3, 4]" by simp
  from t [THEN conjunct2, THEN conjunct2, THEN conjunct2, THEN conjunct1]
  show "blists ?H' ! 0 = [False, True, False]" by simp
qed

subsection \<open>Validation and the fixed mask\<close>

text \<open>
  C10. The validator does not read the fixed mask. Two calls of \<open>fit\<close> that differ only
  in \<open>fixed_params\<close> raise the same bounds error, with the same index, or neither raises
  one; an initial value outside its bound is rejected also when the mask fixes that
  parameter.
\<close>

theorem validation_ignores_fixed_mask:
  fixes opt :: "('k, 'e, 'r, 's) optimizer"
  assumes "I = py_or init_pars (suggested_init (config pdf))"
    and "B = py_or par_bounds (suggested_bounds (config pdf))"
  shows "(validate_fit_inputs I B F1 :: 'e exn + unit) = validate_fit_inputs I B F2
       \<and> (\<forall>e. (validate_fit_inputs I B (py_or fixed1 (suggested_fixed (config pdf))) :: 'e exn + unit)
                  = Inl e \<longrightarrow>
               fit opt data pdf init_pars par_bounds fixed1 kwargs s = (Inl e, s)
             \<and> fit opt data pdf init_pars par_bounds fixed2 kwargs s = (Inl e, s))
       \<and> (\<forall>i. i < length I \<and> i < length B \<and> \<not> (fst (B ! i) \<le> I ! i \<and> I ! i \<le> snd (B ! i)) \<longrightarrow>
             (\<exists>j v b. fit opt data pdf init_pars par_bounds fixed1 kwargs s = (Inl (ValueError j v b), s)
                    \<and> fit opt data pdf init_pars par_bounds fixed2 kwargs s = (Inl (ValueError j v b), s)))"
proof (intro conjI allI impI)
  show eq: "\<And>F1 F2. (validate_fit_inputs I B F1 :: 'e exn + unit) = validate_fit_inputs I B F2"
    by (simp add: validate_fit_inputs_def)
  {
    fix e :: "'e exn"
    assume v: "validate_fit_inputs I B (py_or fixed1 (suggested_fixed (config pdf))) = Inl e"
    show "fit opt data pdf init_pars par_bounds fixed1 kwargs s = (Inl e, s)"
      using v unfolding assms by (rule fit_invalid)
    from v eq [of "py_or fixed2 (suggested_fixed (config pdf))" "py_or fixed1 (suggested_fixed (config pdf))"]
    have "validate_fit_inputs I B (py_or fixed2 (suggested_fixed (config pdf))) = Inl e"
      by simp
    then show "fit opt data pdf init_pars par_bounds fixed2 kwargs s = (Inl e, s)"
      unfolding assms by (rule fit_invalid)
  }
  fix i
  assume a: "i < length I \<and> i < length B \<and> \<not> (fst (B ! i) \<le> I ! i \<and> I ! i \<le> snd (B ! i))"
  then have a1: "i < length I" and a2: "i < length B"
    and a3: "\<not> (fst (B ! i) \<le> I ! i \<and> I ! i \<le> snd (B ! i))"
    by simp_all
  from first_violation [OF a1 a2 a3, of "py_or fixed1 (suggested_fixed (config pdf))"]
  obtain j where j: "(validate_fit_inputs I B (py_or fixed1 (suggested_fixed (config pdf))) :: 'e exn + unit)
                        = Inl (ValueError j (I ! j) (B ! j))"
    by blast
  with eq [of "py_or fixed2 (suggested_fixed (config pdf))" "py_or fixed1 (suggested_fixed (config pdf))"]
  have j2: "(validate_fit_inputs I B (py_or fixed2 (suggested_fixed (config pdf))) :: 'e exn + unit)
                        = Inl (ValueError j (I ! j) (B ! j))"
    by simp
  have "fit opt data pdf init_pars par_bounds fixed1 kwargs s = (Inl (ValueError j (I ! j) (B ! j)), s)"
    using j unfolding assms by (rule fit_invalid)
  moreover have "fit opt data pdf init_pars par_bounds fixed2 kwargs s = (Inl (ValueError j (I ! j) (B ! j)), s)"
    using j2 unfolding assms by (rule fit_invalid)
  ultimately show "\<exists>j v b. fit opt data pdf init_pars par_bounds fixed1 kwargs s = (Inl (ValueError j v b), s)
                    \<and> fit opt data pdf init_pars par_bounds fixed2 kwargs s = (Inl (ValueError j v b), s)"
    by blast
qed

text \<open>Parameter 1 starts outside its bound; fixed or free, the call is rejected.\<close>

theorem validation_ignores_fixed_mask_witness:
  "fit example_opt [] example_pdf (Some [1, 11, 1]) None (Some [False, True, False]) () 0
     = (Inl (ValueError 1 11 (0, 10)), 0)
   \<and> fit example_opt [] example_pdf (Some [1, 11, 1]) None (Some [False, False, False]) () 0
     = (Inl (ValueError 1 11 (0, 10)), 0)"
proof -
  have v: "(validate_fit_inputs [1, 11, 1] [(0, 10), (0, 10), (0, 10)]
              (py_or (Some [False, True, False]) (suggested_fixed (config example_pdf)))
            :: unit exn + unit) = Inl (ValueError 1 11 (0, 10))"
    by (simp add: validate_fit_inputs_def)
  have a1: "[1, 11, 1] = py_or (Some [1, 11, 1]) (suggested_init (config example_pdf))"
    by simp
  have a2: "[(0, 10), (0, 10), (0, 10)] = py_or None (suggested_bounds (config example_pdf))"
    by (simp add: example_defs)
  from validation_ignores_fixed_mask [OF a1 a2, of _ _ "Some [False, True, False]" example_opt
      "[]" "()" 0 "Some [False, False, False]", THEN conjunct2, THEN conjunct1] v
  show ?thesis by blast
qed

end
